theory Spec2Isabelle
  imports Main
begin

section \<open>The host of a run\<close>

text \<open>
  \<^verbatim>\<open>tools/install-vcpkg.py\<close> is a module body of 25 lines. Everything it does goes through
  the standard library: \<^verbatim>\<open>os.path\<close> (abspath, dirname, join, isdir),
  \<^verbatim>\<open>platform.system\<close>, \<^verbatim>\<open>print\<close> and \<^verbatim>\<open>subprocess.check_call\<close>. The host record
  below holds what these read from outside the script: the value of \<^verbatim>\<open>__file__\<close>, the
  working directory, the path module of the operating system, what the filesystem has at
  a path, the platform identifier, what a child process does when it is started, and what
  standard output does with a line that is printed and with the flush when the
  interpreter exits.
\<close>

type_synonym path = string

datatype node = Directory | RegularFile

datatype proc_result = Exited int | LaunchFailed

record path_module =
  pm_abspath :: "path \<Rightarrow> path \<Rightarrow> path"
  pm_dirname :: "path \<Rightarrow> path"
  pm_join :: "path \<Rightarrow> path \<Rightarrow> path"

record host =
  script_file :: path
  os_getcwd :: path
  os_path :: path_module
  filesystem :: "path \<rightharpoonup> node"
  platform_system :: string
  child :: "string list \<Rightarrow> proc_result"
  print_raises :: "string \<Rightarrow> bool"
  exit_flush_fails :: bool

text \<open>
  \<open>pm_abspath\<close> takes the working directory as its first argument: Python's
  \<^verbatim>\<open>os.path.abspath\<close> reads it with \<^verbatim>\<open>os.getcwd()\<close>. \<open>filesystem\<close> gives the kind of
  the object a path leads to, links followed, and \<open>None\<close> where there is nothing.
  \<open>child h cmd\<close> is the return code of the process started with the argument vector
  \<open>cmd\<close> (negative when a signal ended it), or \<open>LaunchFailed\<close> when it could not be
  started. \<open>print_raises h s\<close> holds when \<^verbatim>\<open>print(s)\<close> raises \<^verbatim>\<open>OSError\<close>: standard output
  passes the line on at once (it is unbuffered, or buffered by lines) and the write is
  refused, as on a full device or a closed pipe. \<open>exit_flush_fails h\<close> holds when the
  interpreter cannot flush its standard streams at exit: the output was kept in a buffer
  and the write is refused then.
\<close>

definition os_path_abspath :: "host \<Rightarrow> path \<Rightarrow> path" where
  "os_path_abspath h p = pm_abspath (os_path h) (os_getcwd h) p"

definition os_path_dirname :: "host \<Rightarrow> path \<Rightarrow> path" where
  "os_path_dirname h p = pm_dirname (os_path h) p"

definition os_path_join :: "host \<Rightarrow> path \<Rightarrow> path \<Rightarrow> path" where
  "os_path_join h a b = pm_join (os_path h) a b"

definition os_path_isdir :: "host \<Rightarrow> path \<Rightarrow> bool" where
  "os_path_isdir h p = (filesystem h p = Some Directory)"

section \<open>The POSIX path module\<close>

text \<open>
  The functions of \<^verbatim>\<open>posixpath\<close> that the script calls, for text strings and with the
  two-argument form of \<^verbatim>\<open>join\<close>, which is the only one used.
\<close>

definition posix_isabs :: "path \<Rightarrow> bool" where
  "posix_isabs s = (take 1 s = ''/'')"

definition posix_join :: "path \<Rightarrow> path \<Rightarrow> path" where
  "posix_join a b =
     (if take 1 b = ''/'' then b
      else if a = [] then a @ b
      else if last a = CHR ''/'' then a @ b
      else a @ ''/'' @ b)"

definition rstrip :: "char \<Rightarrow> string \<Rightarrow> string" where
  "rstrip c s = rev (dropWhile (\<lambda>x. x = c) (rev s))"

definition posix_dirname :: "path \<Rightarrow> path" where
  "posix_dirname p =
     (let head = rev (dropWhile (\<lambda>x. x \<noteq> CHR ''/'') (rev p))
      in if head = [] then head
         else if head = replicate (length head) (CHR ''/'') then head
         else rstrip (CHR ''/'') head)"

fun str_split :: "char \<Rightarrow> string \<Rightarrow> string list" where
  "str_split c [] = [[]]"
| "str_split c (x # xs) =
     (if x = c then [] # str_split c xs
      else (case str_split c xs of
              [] \<Rightarrow> [[x]]
            | w # ws \<Rightarrow> (x # w) # ws))"

fun str_join :: "string \<Rightarrow> string list \<Rightarrow> string" where
  "str_join s [] = []"
| "str_join s [w] = w"
| "str_join s (w # v # ws) = w @ s @ str_join s (v # ws)"

fun normpath_loop :: "nat \<Rightarrow> string list \<Rightarrow> string list \<Rightarrow> string list" where
  "normpath_loop initial_slashes new_comps [] = new_comps"
| "normpath_loop initial_slashes new_comps (name # comps) =
     (if name = [] then normpath_loop initial_slashes new_comps comps
      else if name = ''.'' then normpath_loop initial_slashes new_comps comps
      else if name = ''..'' then
        (if initial_slashes = 0 \<and> new_comps = []
           then normpath_loop initial_slashes (new_comps @ [name]) comps
         else if new_comps = []
           then normpath_loop initial_slashes new_comps comps
         else if last new_comps = ''..''
           then normpath_loop initial_slashes (new_comps @ [name]) comps
         else normpath_loop initial_slashes (butlast new_comps) comps)
      else normpath_loop initial_slashes (new_comps @ [name]) comps)"

definition posix_normpath :: "path \<Rightarrow> path" where
  "posix_normpath p =
     (if p = [] then ''.''
      else
        (let initial_slashes =
               (if take 1 p = ''/'' then
                  (if take 2 p = ''//'' then (if take 3 p = ''///'' then 1 else 2) else 1)
                else (0::nat));
             comps = normpath_loop initial_slashes [] (str_split (CHR ''/'') p);
             q = replicate initial_slashes (CHR ''/'') @ str_join ''/'' comps
         in if q = [] then ''.'' else q))"

definition posix_abspath :: "path \<Rightarrow> path \<Rightarrow> path" where
  "posix_abspath cwd p =
     posix_normpath (if posix_isabs p then p else posix_join cwd p)"

definition posixpath :: path_module where
  "posixpath = \<lparr>pm_abspath = posix_abspath, pm_dirname = posix_dirname, pm_join = posix_join\<rparr>"

section \<open>Effects: output, child processes, exceptions\<close>

text \<open>
  What a run does to the outside is the list of its events in order: the calls of
  \<^verbatim>\<open>print\<close> that returned and the calls of \<^verbatim>\<open>subprocess.check_call\<close>. An action takes the
  events so far and gives the events after it, with either a value or the exception it
  raised. \<^verbatim>\<open>print\<close> raises \<^verbatim>\<open>OSError\<close> when standard output refuses the line, and nothing
  after it runs. \<^verbatim>\<open>subprocess.check_call\<close> runs the command and waits for it; it raises
  \<^verbatim>\<open>CalledProcessError\<close> with the return code and the command when the return code is not
  zero, and the \<^verbatim>\<open>OSError\<close> of the launch when the program could not be started.
\<close>

datatype event = Print string | CheckCall "string list"

datatype exn =
  CalledProcessError int "string list"
| OSError_launch "string list"
| OSError_print string

type_synonym 'a action = "event list \<Rightarrow> (exn + 'a) \<times> event list"

definition print :: "host \<Rightarrow> string \<Rightarrow> unit action" where
  "print h s t =
     (if print_raises h s then (Inl (OSError_print s), t)
      else (Inr (), t @ [Print s]))"

definition subprocess_check_call :: "host \<Rightarrow> string list \<Rightarrow> unit action" where
  "subprocess_check_call h cmd t =
     (case child h cmd of
        LaunchFailed \<Rightarrow> (Inl (OSError_launch cmd), t @ [CheckCall cmd])
      | Exited retcode \<Rightarrow>
          (if retcode \<noteq> 0 then (Inl (CalledProcessError retcode cmd), t @ [CheckCall cmd])
           else (Inr (), t @ [CheckCall cmd])))"

definition pass :: "unit action" where
  "pass t = (Inr (), t)"

definition seq :: "unit action \<Rightarrow> unit action \<Rightarrow> unit action" where
  "seq m n t = (case m t of (Inl e, t') \<Rightarrow> (Inl e, t') | (Inr u, t') \<Rightarrow> n t')"

section \<open>The script\<close>

definition tools_dir :: "host \<Rightarrow> path" where
  "tools_dir h = os_path_dirname h (os_path_abspath h (script_file h))"

definition vcpkg_dir :: "host \<Rightarrow> path" where
  "vcpkg_dir h = os_path_join h (tools_dir h) ''vcpkg''"

definition clone_cmd :: "host \<Rightarrow> string list" where
  "clone_cmd h = [''git'', ''clone'', ''https://github.com/Microsoft/vcpkg.git'', vcpkg_dir h]"

definition bootstrap_script :: "host \<Rightarrow> path" where
  "bootstrap_script h =
     (if platform_system h = ''Windows''
      then os_path_join h (vcpkg_dir h) ''bootstrap-vcpkg.bat''
      else os_path_join h (vcpkg_dir h) ''bootstrap-vcpkg.sh'')"

definition bootstrap_cmd :: "host \<Rightarrow> string list" where
  "bootstrap_cmd h = [bootstrap_script h, ''-disableMetrics'']"

definition module_body :: "host \<Rightarrow> unit action" where
  "module_body h =
     seq (if \<not> os_path_isdir h (vcpkg_dir h)
          then seq (print h ''Cloning vcpkg from GitHub...'')
                   (subprocess_check_call h (clone_cmd h))
          else pass)
         (seq (print h ''Installing vcpkg...'')
              (subprocess_check_call h (bootstrap_cmd h)))"

text \<open>
  A run starts with no events. When the interpreter exits it flushes the standard
  streams; if that fails the exit status is 120, whatever happened before. Otherwise a
  script whose module body ran to its end has exit status 0, and one that an exception
  left uncaught has exit status 1, after the traceback.
\<close>

datatype outcome = Finished | Uncaught exn

definition run :: "host \<Rightarrow> outcome \<times> event list" where
  "run h = (case module_body h [] of
              (Inl e, t) \<Rightarrow> (Uncaught e, t)
            | (Inr u, t) \<Rightarrow> (Finished, t))"

definition result :: "host \<Rightarrow> outcome" where
  "result h = fst (run h)"

definition trace :: "host \<Rightarrow> event list" where
  "trace h = snd (run h)"

definition exit_status :: "host \<Rightarrow> outcome \<Rightarrow> int" where
  "exit_status h r =
     (if exit_flush_fails h then 120
      else (case r of Finished \<Rightarrow> 0 | Uncaught e \<Rightarrow> 1))"

fun calls_of :: "event list \<Rightarrow> string list list" where
  "calls_of [] = []"
| "calls_of (Print s # es) = calls_of es"
| "calls_of (CheckCall cmd # es) = cmd # calls_of es"

definition calls :: "host \<Rightarrow> string list list" where
  "calls h = calls_of (trace h)"

text \<open>
  The exception \<^verbatim>\<open>check_call\<close> raises for a child that did not return 0, and the test
  for a command line that runs \<^verbatim>\<open>git clone\<close>.
\<close>

definition raised_by :: "proc_result \<Rightarrow> string list \<Rightarrow> exn" where
  "raised_by r cmd =
     (case r of
        LaunchFailed \<Rightarrow> OSError_launch cmd
      | Exited retcode \<Rightarrow> CalledProcessError retcode cmd)"

definition is_clone :: "string list \<Rightarrow> bool" where
  "is_clone cmd = (take 2 cmd = [''git'', ''clone''])"

section \<open>Letter case\<close>

text \<open>
  Two strings differ only by letter case when they are different and equal once every
  letter A to Z is replaced by its lower-case letter.
\<close>

definition ascii_lower :: "char \<Rightarrow> char" where
  "ascii_lower c =
     (case map_of (zip ''ABCDEFGHIJKLMNOPQRSTUVWXYZ'' ''abcdefghijklmnopqrstuvwxyz'') c of
        None \<Rightarrow> c
      | Some l \<Rightarrow> l)"

definition differs_only_by_case :: "string \<Rightarrow> string \<Rightarrow> bool" where
  "differs_only_by_case a b = (a \<noteq> b \<and> map ascii_lower a = map ascii_lower b)"

section \<open>Some hosts\<close>

text \<open>
  A checkout of the repository at \<^verbatim>\<open>/home/dev/sqlitemap\<close> on a machine with POSIX paths,
  before and after vcpkg has been cloned, and with a plain file where the clone would go.
  Standard output takes every line, except on the hosts named for it: there it is
  unbuffered and refuses every write (\<open>stdout_refused\<close>), or it is buffered and the flush
  at exit fails (\<open>flush_fails\<close>).
\<close>

definition repo_fs :: "path \<rightharpoonup> node" where
  "repo_fs = [''/home/dev/sqlitemap/tools'' \<mapsto> Directory,
              ''/home/dev/sqlitemap/tools/install-vcpkg.py'' \<mapsto> RegularFile]"

definition linux_fresh :: host where
  "linux_fresh =
     \<lparr>script_file = ''tools/install-vcpkg.py'', os_getcwd = ''/home/dev/sqlitemap'',
      os_path = posixpath, filesystem = repo_fs, platform_system = ''Linux'',
      child = (\<lambda>cmd. Exited 0), print_raises = (\<lambda>s. False), exit_flush_fails = False\<rparr>"

definition linux_clone_fails :: host where
  "linux_clone_fails =
     linux_fresh\<lparr>child := (\<lambda>cmd. if take 1 cmd = [''git''] then Exited 128 else Exited 0)\<rparr>"

definition linux_bootstrap_fails :: host where
  "linux_bootstrap_fails =
     linux_fresh\<lparr>child := (\<lambda>cmd. if take 1 cmd = [''git''] then Exited 0 else Exited 2)\<rparr>"

definition linux_file_in_the_way :: host where
  "linux_file_in_the_way =
     linux_clone_fails\<lparr>filesystem := repo_fs(''/home/dev/sqlitemap/tools/vcpkg'' \<mapsto> RegularFile)\<rparr>"

definition linux_cloned :: host where
  "linux_cloned =
     linux_fresh\<lparr>script_file := ''/home/dev/sqlitemap/tools/install-vcpkg.py'',
       filesystem := repo_fs(''/home/dev/sqlitemap/tools/vcpkg'' \<mapsto> Directory)\<rparr>"

definition windows_cloned :: host where
  "windows_cloned = linux_cloned\<lparr>platform_system := ''Windows''\<rparr>"

definition lowercase_windows :: host where
  "lowercase_windows = linux_cloned\<lparr>platform_system := ''windows''\<rparr>"

definition uppercase_windows :: host where
  "uppercase_windows = linux_fresh\<lparr>platform_system := ''WINDOWS''\<rparr>"

definition linux_stdout_refused :: host where
  "linux_stdout_refused = linux_fresh\<lparr>print_raises := (\<lambda>s. True)\<rparr>"

definition file_in_the_way_stdout_refused :: host where
  "file_in_the_way_stdout_refused = linux_file_in_the_way\<lparr>print_raises := (\<lambda>s. True)\<rparr>"

definition windows_stdout_refused :: host where
  "windows_stdout_refused = windows_cloned\<lparr>print_raises := (\<lambda>s. True)\<rparr>"

definition linux_flush_fails :: host where
  "linux_flush_fails = linux_fresh\<lparr>exit_flush_fails := True\<rparr>"

definition linux_clone_and_flush_fail :: host where
  "linux_clone_and_flush_fail = linux_clone_fails\<lparr>exit_flush_fails := True\<rparr>"

lemmas posix_defs =
  posixpath_def posix_abspath_def posix_isabs_def posix_join_def posix_normpath_def
  posix_dirname_def rstrip_def

lemmas host_defs =
  repo_fs_def linux_fresh_def linux_clone_fails_def linux_bootstrap_fails_def
  linux_file_in_the_way_def linux_cloned_def windows_cloned_def lowercase_windows_def
  uppercase_windows_def linux_stdout_refused_def file_in_the_way_stdout_refused_def
  windows_stdout_refused_def linux_flush_fails_def linux_clone_and_flush_fail_def

lemmas path_defs =
  tools_dir_def vcpkg_dir_def os_path_abspath_def os_path_dirname_def os_path_join_def
  os_path_isdir_def

section \<open>The shapes of a run\<close>

text \<open>
  A run has one of six shapes, by whether the target directory is there, whether each
  \<^verbatim>\<open>print\<close> raises, and whether the clone returned 0.
\<close>

lemmas body_defs =
  run_def module_body_def seq_def pass_def print_def subprocess_check_call_def raised_by_def

lemma run_present_print_raises:
  assumes "os_path_isdir h (vcpkg_dir h)" and "print_raises h ''Installing vcpkg...''"
  shows "run h = (Uncaught (OSError_print ''Installing vcpkg...''), [])"
  using assms by (simp add: body_defs)

lemma run_present:
  assumes "os_path_isdir h (vcpkg_dir h)" and "\<not> print_raises h ''Installing vcpkg...''"
  shows "run h =
    ((if child h (bootstrap_cmd h) = Exited 0 then Finished
      else Uncaught (raised_by (child h (bootstrap_cmd h)) (bootstrap_cmd h))),
     [Print ''Installing vcpkg...'', CheckCall (bootstrap_cmd h)])"
  using assms by (simp add: body_defs split: proc_result.split)

lemma run_absent_print_raises:
  assumes "\<not> os_path_isdir h (vcpkg_dir h)"
    and "print_raises h ''Cloning vcpkg from GitHub...''"
  shows "run h = (Uncaught (OSError_print ''Cloning vcpkg from GitHub...''), [])"
  using assms by (simp add: body_defs)

lemma run_clone_fails:
  assumes "\<not> os_path_isdir h (vcpkg_dir h)"
    and "\<not> print_raises h ''Cloning vcpkg from GitHub...''"
    and "child h (clone_cmd h) \<noteq> Exited 0"
  shows "run h =
    (Uncaught (raised_by (child h (clone_cmd h)) (clone_cmd h)),
     [Print ''Cloning vcpkg from GitHub...'', CheckCall (clone_cmd h)])"
  using assms by (simp add: body_defs split: proc_result.split)

lemma run_cloned_print_raises:
  assumes "\<not> os_path_isdir h (vcpkg_dir h)"
    and "\<not> print_raises h ''Cloning vcpkg from GitHub...''"
    and "child h (clone_cmd h) = Exited 0"
    and "print_raises h ''Installing vcpkg...''"
  shows "run h =
    (Uncaught (OSError_print ''Installing vcpkg...''),
     [Print ''Cloning vcpkg from GitHub...'', CheckCall (clone_cmd h)])"
  using assms by (simp add: body_defs)

lemma run_cloned:
  assumes "\<not> os_path_isdir h (vcpkg_dir h)"
    and "\<not> print_raises h ''Cloning vcpkg from GitHub...''"
    and "child h (clone_cmd h) = Exited 0"
    and "\<not> print_raises h ''Installing vcpkg...''"
  shows "run h =
    ((if child h (bootstrap_cmd h) = Exited 0 then Finished
      else Uncaught (raised_by (child h (bootstrap_cmd h)) (bootstrap_cmd h))),
     [Print ''Cloning vcpkg from GitHub...'', CheckCall (clone_cmd h),
      Print ''Installing vcpkg...'', CheckCall (bootstrap_cmd h)])"
  using assms by (simp add: body_defs split: proc_result.split)

lemma run_cases
  [case_names present_print_raises present absent_print_raises clone_fails
    cloned_print_raises cloned]:
  assumes "os_path_isdir h (vcpkg_dir h) \<Longrightarrow> print_raises h ''Installing vcpkg...'' \<Longrightarrow>
      run h = (Uncaught (OSError_print ''Installing vcpkg...''), []) \<Longrightarrow> P"
    and "os_path_isdir h (vcpkg_dir h) \<Longrightarrow> \<not> print_raises h ''Installing vcpkg...'' \<Longrightarrow>
      run h =
        ((if child h (bootstrap_cmd h) = Exited 0 then Finished
          else Uncaught (raised_by (child h (bootstrap_cmd h)) (bootstrap_cmd h))),
         [Print ''Installing vcpkg...'', CheckCall (bootstrap_cmd h)]) \<Longrightarrow> P"
    and "\<not> os_path_isdir h (vcpkg_dir h) \<Longrightarrow>
      print_raises h ''Cloning vcpkg from GitHub...'' \<Longrightarrow>
      run h = (Uncaught (OSError_print ''Cloning vcpkg from GitHub...''), []) \<Longrightarrow> P"
    and "\<not> os_path_isdir h (vcpkg_dir h) \<Longrightarrow>
      \<not> print_raises h ''Cloning vcpkg from GitHub...'' \<Longrightarrow>
      child h (clone_cmd h) \<noteq> Exited 0 \<Longrightarrow>
      run h =
        (Uncaught (raised_by (child h (clone_cmd h)) (clone_cmd h)),
         [Print ''Cloning vcpkg from GitHub...'', CheckCall (clone_cmd h)]) \<Longrightarrow> P"
    and "\<not> os_path_isdir h (vcpkg_dir h) \<Longrightarrow>
      \<not> print_raises h ''Cloning vcpkg from GitHub...'' \<Longrightarrow>
      child h (clone_cmd h) = Exited 0 \<Longrightarrow> print_raises h ''Installing vcpkg...'' \<Longrightarrow>
      run h =
        (Uncaught (OSError_print ''Installing vcpkg...''),
         [Print ''Cloning vcpkg from GitHub...'', CheckCall (clone_cmd h)]) \<Longrightarrow> P"
    and "\<not> os_path_isdir h (vcpkg_dir h) \<Longrightarrow>
      \<not> print_raises h ''Cloning vcpkg from GitHub...'' \<Longrightarrow>
      child h (clone_cmd h) = Exited 0 \<Longrightarrow> \<not> print_raises h ''Installing vcpkg...'' \<Longrightarrow>
      run h =
        ((if child h (bootstrap_cmd h) = Exited 0 then Finished
          else Uncaught (raised_by (child h (bootstrap_cmd h)) (bootstrap_cmd h))),
         [Print ''Cloning vcpkg from GitHub...'', CheckCall (clone_cmd h),
          Print ''Installing vcpkg...'', CheckCall (bootstrap_cmd h)]) \<Longrightarrow> P"
  shows P
  using assms run_present_print_raises [of h] run_present [of h] run_absent_print_raises [of h]
    run_clone_fails [of h] run_cloned_print_raises [of h] run_cloned [of h]
  by blast

lemma is_clone_clone_cmd: "is_clone (clone_cmd h)"
  by (simp add: is_clone_def clone_cmd_def)

lemma not_is_clone_bootstrap_cmd: "\<not> is_clone (bootstrap_cmd h)"
  by (simp add: is_clone_def bootstrap_cmd_def)

lemma clone_neq_bootstrap: "clone_cmd h \<noteq> bootstrap_cmd h"
  by (simp add: clone_cmd_def bootstrap_cmd_def)

lemmas view_defs = calls_def trace_def result_def

lemmas cmd_facts =
  is_clone_clone_cmd not_is_clone_bootstrap_cmd clone_neq_bootstrap
  clone_neq_bootstrap [symmetric]

lemmas run_defs =
  run_def module_body_def seq_def pass_def print_def subprocess_check_call_def clone_cmd_def
  bootstrap_cmd_def bootstrap_script_def result_def trace_def calls_def exit_status_def

lemmas eval_defs = host_defs path_defs posix_defs run_defs is_clone_def

section \<open>Exit status\<close>

text \<open>
  C1, as the code has it. A subprocess that the run started and that exited with a status
  other than zero ends the run with an uncaught \<^verbatim>\<open>CalledProcessError\<close> holding that status
  and that command; the exit status of the program is then 1, or 120 when the flush of the
  standard streams at exit fails, whatever the status of the subprocess was. A run that
  started the bootstrap script and whose subprocesses all exited with 0 finishes; its exit
  status is 0, or 120 when that flush fails.
\<close>

theorem exit_status_of_failed_subprocess:
  "(cmd \<in> set (calls h) \<and> child h cmd = Exited rc \<and> rc \<noteq> 0 \<longrightarrow>
      result h = Uncaught (CalledProcessError rc cmd) \<and>
      exit_status h (result h) = (if exit_flush_fails h then 120 else 1)) \<and>
   (bootstrap_cmd h \<in> set (calls h) \<and> list_all (\<lambda>c. child h c = Exited 0) (calls h) \<longrightarrow>
      result h = Finished \<and>
      exit_status h (result h) = (if exit_flush_fails h then 120 else 0))"
  by (cases h rule: run_cases)
    (auto simp add: view_defs cmd_facts raised_by_def exit_status_def)

text \<open>
  The theorem at five hosts: the clone exits with 128, the same with a flush that fails,
  the bootstrap script exits with 2, both exit with 0, and both exit with 0 with a flush
  that fails.
\<close>

theorem exit_status_of_failed_subprocess_witness:
  "[''git'', ''clone'', ''https://github.com/Microsoft/vcpkg.git'',
    ''/home/dev/sqlitemap/tools/vcpkg''] \<in> set (calls linux_clone_fails) \<and>
   child linux_clone_fails
     [''git'', ''clone'', ''https://github.com/Microsoft/vcpkg.git'',
      ''/home/dev/sqlitemap/tools/vcpkg''] = Exited 128 \<and>
   (128::int) \<noteq> 0 \<and>
   result linux_clone_fails = Uncaught (CalledProcessError 128
     [''git'', ''clone'', ''https://github.com/Microsoft/vcpkg.git'',
      ''/home/dev/sqlitemap/tools/vcpkg'']) \<and>
   exit_status linux_clone_fails (result linux_clone_fails) = 1 \<and>
   [''git'', ''clone'', ''https://github.com/Microsoft/vcpkg.git'',
    ''/home/dev/sqlitemap/tools/vcpkg''] \<in> set (calls linux_clone_and_flush_fail) \<and>
   child linux_clone_and_flush_fail
     [''git'', ''clone'', ''https://github.com/Microsoft/vcpkg.git'',
      ''/home/dev/sqlitemap/tools/vcpkg''] = Exited 128 \<and>
   exit_status linux_clone_and_flush_fail (result linux_clone_and_flush_fail) = 120 \<and>
   [''/home/dev/sqlitemap/tools/vcpkg/bootstrap-vcpkg.sh'', ''-disableMetrics'']
      \<in> set (calls linux_bootstrap_fails) \<and>
   child linux_bootstrap_fails
     [''/home/dev/sqlitemap/tools/vcpkg/bootstrap-vcpkg.sh'', ''-disableMetrics''] = Exited 2 \<and>
   (2::int) \<noteq> 0 \<and>
   result linux_bootstrap_fails = Uncaught (CalledProcessError 2
     [''/home/dev/sqlitemap/tools/vcpkg/bootstrap-vcpkg.sh'', ''-disableMetrics'']) \<and>
   exit_status linux_bootstrap_fails (result linux_bootstrap_fails) = 1 \<and>
   bootstrap_cmd linux_fresh \<in> set (calls linux_fresh) \<and>
   list_all (\<lambda>c. child linux_fresh c = Exited 0) (calls linux_fresh) \<and>
   result linux_fresh = Finished \<and> exit_status linux_fresh (result linux_fresh) = 0 \<and>
   bootstrap_cmd linux_flush_fails \<in> set (calls linux_flush_fails) \<and>
   list_all (\<lambda>c. child linux_flush_fails c = Exited 0) (calls linux_flush_fails) \<and>
   result linux_flush_fails = Finished \<and>
   exit_status linux_flush_fails (result linux_flush_fails) = 120"
proof -
  let ?clone = "[''git'', ''clone'', ''https://github.com/Microsoft/vcpkg.git'',
                 ''/home/dev/sqlitemap/tools/vcpkg'']"
  let ?boot = "[''/home/dev/sqlitemap/tools/vcpkg/bootstrap-vcpkg.sh'', ''-disableMetrics'']"
  have a: "?clone \<in> set (calls linux_clone_fails) \<and>
           child linux_clone_fails ?clone = Exited 128 \<and> (128::int) \<noteq> 0 \<and>
           \<not> exit_flush_fails linux_clone_fails"
    by (simp add: eval_defs)
  have a': "?clone \<in> set (calls linux_clone_and_flush_fail) \<and>
           child linux_clone_and_flush_fail ?clone = Exited 128 \<and>
           exit_flush_fails linux_clone_and_flush_fail"
    by (simp add: eval_defs)
  have b: "?boot \<in> set (calls linux_bootstrap_fails) \<and>
           child linux_bootstrap_fails ?boot = Exited 2 \<and> (2::int) \<noteq> 0 \<and>
           \<not> exit_flush_fails linux_bootstrap_fails"
    by (simp add: eval_defs)
  have c: "bootstrap_cmd linux_fresh \<in> set (calls linux_fresh) \<and>
           list_all (\<lambda>c. child linux_fresh c = Exited 0) (calls linux_fresh) \<and>
           \<not> exit_flush_fails linux_fresh"
    by (simp add: eval_defs)
  have d: "bootstrap_cmd linux_flush_fails \<in> set (calls linux_flush_fails) \<and>
           list_all (\<lambda>c. child linux_flush_fails c = Exited 0) (calls linux_flush_fails) \<and>
           exit_flush_fails linux_flush_fails"
    by (simp add: eval_defs)
  have r1: "result linux_clone_fails = Uncaught (CalledProcessError 128 ?clone) \<and>
            exit_status linux_clone_fails (result linux_clone_fails) = 1"
    using a exit_status_of_failed_subprocess [of ?clone linux_clone_fails 128]
    by (simp add: exit_status_def)
  have r2: "exit_status linux_clone_and_flush_fail (result linux_clone_and_flush_fail) = 120"
    using a' exit_status_of_failed_subprocess [of ?clone linux_clone_and_flush_fail 128]
    by (simp add: exit_status_def)
  have r3: "result linux_bootstrap_fails = Uncaught (CalledProcessError 2 ?boot) \<and>
            exit_status linux_bootstrap_fails (result linux_bootstrap_fails) = 1"
    using b exit_status_of_failed_subprocess [of ?boot linux_bootstrap_fails 2]
    by (simp add: exit_status_def)
  have r4: "result linux_fresh = Finished \<and> exit_status linux_fresh (result linux_fresh) = 0"
    using c exit_status_of_failed_subprocess [of ?clone linux_fresh 0]
    by (simp add: exit_status_def)
  have r5: "result linux_flush_fails = Finished \<and>
            exit_status linux_flush_fails (result linux_flush_fails) = 120"
    using d exit_status_of_failed_subprocess [of ?clone linux_flush_fails 0]
    by (simp add: exit_status_def)
  show ?thesis
    using a a' b c d r1 r2 r3 r4 r5 by blast
qed

text \<open>
  C1 as the spec states it fails. On a host where \<^verbatim>\<open>git clone\<close> exits with 128, the clone
  is the only subprocess of the run and the program ends with exit status 1, not 128. On
  a host where both subprocesses exit with 0 and the flush at exit fails, the program
  ends with exit status 120, not 0.
\<close>

theorem clone_exit_status_not_propagated:
  "\<not> os_path_isdir linux_clone_fails (vcpkg_dir linux_clone_fails) \<and>
   child linux_clone_fails (clone_cmd linux_clone_fails) = Exited 128 \<and>
   calls linux_clone_fails = [clone_cmd linux_clone_fails] \<and>
   exit_status linux_clone_fails (result linux_clone_fails) = 1 \<and>
   exit_status linux_clone_fails (result linux_clone_fails) \<noteq> 128 \<and>
   calls linux_flush_fails = [clone_cmd linux_flush_fails, bootstrap_cmd linux_flush_fails] \<and>
   child linux_flush_fails (clone_cmd linux_flush_fails) = Exited 0 \<and>
   child linux_flush_fails (bootstrap_cmd linux_flush_fails) = Exited 0 \<and>
   exit_status linux_flush_fails (result linux_flush_fails) = 120"
  by (simp add: eval_defs)

section \<open>The clone\<close>

text \<open>
  C2. In every run in which the clone subprocess was started and exited with a status
  other than zero, the bootstrap subprocess is not started: the clone is the only
  subprocess of the run and the last event of the run, started once, and the run ends with
  the \<^verbatim>\<open>CalledProcessError\<close> of that clone.
\<close>

theorem failed_clone_stops_run:
  assumes "clone_cmd h \<in> set (calls h)"
    and "child h (clone_cmd h) = Exited rc" and "rc \<noteq> 0"
  shows "bootstrap_cmd h \<notin> set (calls h) \<and>
         calls h = [clone_cmd h] \<and>
         trace h = [Print ''Cloning vcpkg from GitHub...'', CheckCall (clone_cmd h)] \<and>
         result h = Uncaught (CalledProcessError rc (clone_cmd h))"
  using assms
  by (cases h rule: run_cases) (simp_all add: view_defs cmd_facts raised_by_def)

text \<open>The theorem on the host where \<^verbatim>\<open>git clone\<close> exits with 128.\<close>

theorem failed_clone_stops_run_witness:
  "clone_cmd linux_clone_fails \<in> set (calls linux_clone_fails) \<and>
   child linux_clone_fails (clone_cmd linux_clone_fails) = Exited 128 \<and> (128::int) \<noteq> 0 \<and>
   bootstrap_cmd linux_clone_fails \<notin> set (calls linux_clone_fails) \<and>
   calls linux_clone_fails =
     [[''git'', ''clone'', ''https://github.com/Microsoft/vcpkg.git'',
       ''/home/dev/sqlitemap/tools/vcpkg'']] \<and>
   result linux_clone_fails = Uncaught (CalledProcessError 128 (clone_cmd linux_clone_fails))"
proof -
  have a: "clone_cmd linux_clone_fails \<in> set (calls linux_clone_fails)"
    by (simp add: eval_defs)
  have b: "child linux_clone_fails (clone_cmd linux_clone_fails) = Exited 128"
    by (simp add: eval_defs)
  have c: "clone_cmd linux_clone_fails =
     [''git'', ''clone'', ''https://github.com/Microsoft/vcpkg.git'',
       ''/home/dev/sqlitemap/tools/vcpkg'']"
    by (simp add: eval_defs)
  show ?thesis
    using a b c failed_clone_stops_run [OF a b] by (simp add: bootstrap_cmd_def)
qed

text \<open>
  C3. In every run in which the target directory \<open>vcpkg_dir h\<close> is a directory already, no
  clone is started: no subprocess of the run is a \<^verbatim>\<open>git clone\<close>, and the run does not print
  the line that announces the clone.
\<close>

theorem present_directory_no_clone:
  assumes "os_path_isdir h (vcpkg_dir h)"
  shows "filter is_clone (calls h) = [] \<and> clone_cmd h \<notin> set (calls h) \<and>
         Print ''Cloning vcpkg from GitHub...'' \<notin> set (trace h)"
  using assms
  by (cases h rule: run_cases) (simp_all add: view_defs cmd_facts)

text \<open>The theorem on the checkout that holds the vcpkg directory already.\<close>

theorem present_directory_no_clone_witness:
  "os_path_isdir linux_cloned (vcpkg_dir linux_cloned) \<and>
   filter is_clone (calls linux_cloned) = [] \<and>
   clone_cmd linux_cloned \<notin> set (calls linux_cloned) \<and>
   Print ''Cloning vcpkg from GitHub...'' \<notin> set (trace linux_cloned)"
proof -
  have a: "os_path_isdir linux_cloned (vcpkg_dir linux_cloned)"
    by (simp add: eval_defs)
  show ?thesis
    using a present_directory_no_clone [OF a] by simp
qed

text \<open>
  C4, as the code has it. In every run in which nothing exists at the target directory
  and the \<^verbatim>\<open>print\<close> that announces the clone does not raise, exactly one clone is started;
  its source is the fixed URL and its destination is the target directory, the script
  directory joined with \<^verbatim>\<open>vcpkg\<close>.
\<close>

theorem absent_directory_one_clone:
  assumes "filesystem h (vcpkg_dir h) = None"
    and "\<not> print_raises h ''Cloning vcpkg from GitHub...''"
  shows "filter is_clone (calls h) =
           [[''git'', ''clone'', ''https://github.com/Microsoft/vcpkg.git'', vcpkg_dir h]] \<and>
         vcpkg_dir h = os_path_join h (tools_dir h) ''vcpkg''"
proof -
  have nd: "\<not> os_path_isdir h (vcpkg_dir h)"
    using assms by (simp add: os_path_isdir_def)
  have "filter is_clone (calls h) = [clone_cmd h]"
    using nd assms(2)
    by (cases h rule: run_cases) (simp_all add: view_defs cmd_facts)
  then show ?thesis
    by (simp add: clone_cmd_def vcpkg_dir_def)
qed

text \<open>The theorem on the fresh checkout.\<close>

theorem absent_directory_one_clone_witness:
  "filesystem linux_fresh (vcpkg_dir linux_fresh) = None \<and>
   \<not> print_raises linux_fresh ''Cloning vcpkg from GitHub...'' \<and>
   filter is_clone (calls linux_fresh) =
     [[''git'', ''clone'', ''https://github.com/Microsoft/vcpkg.git'',
       ''/home/dev/sqlitemap/tools/vcpkg'']] \<and>
   vcpkg_dir linux_fresh = ''/home/dev/sqlitemap/tools/vcpkg''"
proof -
  have a: "filesystem linux_fresh (vcpkg_dir linux_fresh) = None"
    by (simp add: eval_defs)
  have b: "\<not> print_raises linux_fresh ''Cloning vcpkg from GitHub...''"
    by (simp add: host_defs)
  have c: "vcpkg_dir linux_fresh = ''/home/dev/sqlitemap/tools/vcpkg''"
    by (simp add: eval_defs)
  show ?thesis
    using a b c absent_directory_one_clone [OF a b] by simp
qed

text \<open>
  C4 as the spec states it fails: on the fresh checkout with a standard output that
  refuses the line, nothing exists at the target directory, the \<^verbatim>\<open>print\<close> before the clone
  raises, and the run starts no subprocess at all.
\<close>

theorem absent_directory_print_raises_no_clone:
  "filesystem linux_stdout_refused (vcpkg_dir linux_stdout_refused) = None \<and>
   run linux_stdout_refused =
     (Uncaught (OSError_print ''Cloning vcpkg from GitHub...''), []) \<and>
   calls linux_stdout_refused = [] \<and>
   filter is_clone (calls linux_stdout_refused) = []"
  by (simp add: eval_defs)

text \<open>
  C9, as the code has it. The test before the clone asks whether the target path is a
  directory, not whether it exists: in every run in which the path leads to a file that is
  not a directory, the test fails, and when the \<^verbatim>\<open>print\<close> that announces the clone does not
  raise, the clone is started, first and once, with that path as its destination.
\<close>

theorem plain_file_still_cloned:
  assumes "filesystem h (vcpkg_dir h) = Some RegularFile"
    and "\<not> print_raises h ''Cloning vcpkg from GitHub...''"
  shows "\<not> os_path_isdir h (vcpkg_dir h) \<and>
         hd (calls h) = [''git'', ''clone'', ''https://github.com/Microsoft/vcpkg.git'', vcpkg_dir h] \<and>
         filter is_clone (calls h) =
           [[''git'', ''clone'', ''https://github.com/Microsoft/vcpkg.git'', vcpkg_dir h]]"
proof -
  have nd: "\<not> os_path_isdir h (vcpkg_dir h)"
    using assms by (simp add: os_path_isdir_def)
  have "hd (calls h) = clone_cmd h \<and> filter is_clone (calls h) = [clone_cmd h]"
    using nd assms(2)
    by (cases h rule: run_cases) (simp_all add: view_defs cmd_facts)
  with nd show ?thesis
    by (simp add: clone_cmd_def)
qed

text \<open>The theorem on the checkout with a plain file at \<^verbatim>\<open>tools/vcpkg\<close>.\<close>

theorem plain_file_still_cloned_witness:
  "filesystem linux_file_in_the_way (vcpkg_dir linux_file_in_the_way) = Some RegularFile \<and>
   \<not> print_raises linux_file_in_the_way ''Cloning vcpkg from GitHub...'' \<and>
   \<not> os_path_isdir linux_file_in_the_way (vcpkg_dir linux_file_in_the_way) \<and>
   hd (calls linux_file_in_the_way) =
     [''git'', ''clone'', ''https://github.com/Microsoft/vcpkg.git'',
      ''/home/dev/sqlitemap/tools/vcpkg'']"
proof -
  have a: "filesystem linux_file_in_the_way (vcpkg_dir linux_file_in_the_way) = Some RegularFile"
    by (simp add: eval_defs)
  have b: "\<not> print_raises linux_file_in_the_way ''Cloning vcpkg from GitHub...''"
    by (simp add: host_defs)
  have c: "vcpkg_dir linux_file_in_the_way = ''/home/dev/sqlitemap/tools/vcpkg''"
    by (simp add: eval_defs)
  show ?thesis
    using a b c plain_file_still_cloned [OF a b] by simp
qed

text \<open>
  C9 as the spec states it fails: with a plain file at \<^verbatim>\<open>tools/vcpkg\<close> and a standard
  output that refuses the line, the \<^verbatim>\<open>print\<close> before the clone raises and the run starts no
  subprocess.
\<close>

theorem plain_file_print_raises_no_clone:
  "filesystem file_in_the_way_stdout_refused (vcpkg_dir file_in_the_way_stdout_refused)
     = Some RegularFile \<and>
   run file_in_the_way_stdout_refused =
     (Uncaught (OSError_print ''Cloning vcpkg from GitHub...''), []) \<and>
   calls file_in_the_way_stdout_refused = []"
  by (simp add: eval_defs)

section \<open>The bootstrap script\<close>

text \<open>
  C5. When the platform identifier is the string \<^verbatim>\<open>Windows\<close>, the bootstrap script is
  \<^verbatim>\<open>bootstrap-vcpkg.bat\<close> in the target directory; for every other identifier it is
  \<^verbatim>\<open>bootstrap-vcpkg.sh\<close> in the target directory. There is no third case, and every
  subprocess of a run other than the clone is the script so selected.
\<close>

theorem platform_selects_entry_point:
  "(platform_system h = ''Windows'' \<longrightarrow>
      bootstrap_script h = os_path_join h (vcpkg_dir h) ''bootstrap-vcpkg.bat'' \<and>
      list_all (\<lambda>cmd. is_clone cmd \<or>
                  cmd = [os_path_join h (vcpkg_dir h) ''bootstrap-vcpkg.bat'', ''-disableMetrics''])
        (calls h)) \<and>
   (platform_system h \<noteq> ''Windows'' \<longrightarrow>
      bootstrap_script h = os_path_join h (vcpkg_dir h) ''bootstrap-vcpkg.sh'' \<and>
      list_all (\<lambda>cmd. is_clone cmd \<or>
                  cmd = [os_path_join h (vcpkg_dir h) ''bootstrap-vcpkg.sh'', ''-disableMetrics''])
        (calls h))"
proof -
  have "list_all (\<lambda>cmd. is_clone cmd \<or> cmd = bootstrap_cmd h) (calls h)"
    by (cases h rule: run_cases) (simp_all add: view_defs cmd_facts)
  then show ?thesis
    by (cases "platform_system h = ''Windows''")
      (simp_all add: bootstrap_cmd_def bootstrap_script_def)
qed

text \<open>The theorem on a host that reports \<^verbatim>\<open>Windows\<close> and on one that reports \<^verbatim>\<open>Linux\<close>.\<close>

theorem platform_selects_entry_point_witness:
  "platform_system windows_cloned = ''Windows'' \<and>
   bootstrap_script windows_cloned = ''/home/dev/sqlitemap/tools/vcpkg/bootstrap-vcpkg.bat'' \<and>
   calls windows_cloned =
     [[''/home/dev/sqlitemap/tools/vcpkg/bootstrap-vcpkg.bat'', ''-disableMetrics'']] \<and>
   platform_system linux_fresh \<noteq> ''Windows'' \<and>
   bootstrap_script linux_fresh = ''/home/dev/sqlitemap/tools/vcpkg/bootstrap-vcpkg.sh'' \<and>
   list_all (\<lambda>cmd. is_clone cmd \<or>
               cmd = [''/home/dev/sqlitemap/tools/vcpkg/bootstrap-vcpkg.sh'', ''-disableMetrics''])
     (calls linux_fresh)"
proof -
  have a: "platform_system windows_cloned = ''Windows'' \<and>
           platform_system linux_fresh \<noteq> ''Windows''"
    by (simp add: host_defs)
  have b: "os_path_join windows_cloned (vcpkg_dir windows_cloned) ''bootstrap-vcpkg.bat'' =
             ''/home/dev/sqlitemap/tools/vcpkg/bootstrap-vcpkg.bat'' \<and>
           os_path_join linux_fresh (vcpkg_dir linux_fresh) ''bootstrap-vcpkg.sh'' =
             ''/home/dev/sqlitemap/tools/vcpkg/bootstrap-vcpkg.sh''"
    by (simp add: host_defs path_defs posix_defs)
  have c: "calls windows_cloned =
     [[''/home/dev/sqlitemap/tools/vcpkg/bootstrap-vcpkg.bat'', ''-disableMetrics'']]"
    by (simp add: eval_defs)
  show ?thesis
    using a b c platform_selects_entry_point [of windows_cloned]
      platform_selects_entry_point [of linux_fresh]
    by simp
qed

text \<open>
  C6. Every run that reaches the bootstrap step, that is, prints \<^verbatim>\<open>Installing vcpkg...\<close>,
  starts the bootstrap script last, with exactly one argument, \<^verbatim>\<open>-disableMetrics\<close>, whatever
  the platform and whether or not a clone came first; it is the only subprocess of the run
  that is not the clone.
\<close>

theorem bootstrap_has_one_fixed_argument:
  assumes "Print ''Installing vcpkg...'' \<in> set (trace h)"
  shows "last (calls h) = [bootstrap_script h, ''-disableMetrics''] \<and>
         tl (last (calls h)) = [''-disableMetrics''] \<and>
         filter (\<lambda>cmd. \<not> is_clone cmd) (calls h) = [[bootstrap_script h, ''-disableMetrics'']]"
proof -
  have "last (calls h) = bootstrap_cmd h \<and>
        filter (\<lambda>cmd. \<not> is_clone cmd) (calls h) = [bootstrap_cmd h]"
    using assms
    by (cases h rule: run_cases) (simp_all add: view_defs cmd_facts)
  then show ?thesis
    by (simp add: bootstrap_cmd_def)
qed

text \<open>
  The theorem on two hosts: Linux with a clone before the bootstrap, and \<^verbatim>\<open>Windows\<close> with
  no clone.
\<close>

theorem bootstrap_has_one_fixed_argument_witness:
  "Print ''Installing vcpkg...'' \<in> set (trace linux_fresh) \<and>
   clone_cmd linux_fresh \<in> set (calls linux_fresh) \<and>
   last (calls linux_fresh) =
     [''/home/dev/sqlitemap/tools/vcpkg/bootstrap-vcpkg.sh'', ''-disableMetrics''] \<and>
   tl (last (calls linux_fresh)) = [''-disableMetrics''] \<and>
   Print ''Installing vcpkg...'' \<in> set (trace windows_cloned) \<and>
   clone_cmd windows_cloned \<notin> set (calls windows_cloned) \<and>
   last (calls windows_cloned) =
     [''/home/dev/sqlitemap/tools/vcpkg/bootstrap-vcpkg.bat'', ''-disableMetrics''] \<and>
   tl (last (calls windows_cloned)) = [''-disableMetrics'']"
proof -
  have a: "Print ''Installing vcpkg...'' \<in> set (trace linux_fresh)"
    by (simp add: eval_defs)
  have b: "Print ''Installing vcpkg...'' \<in> set (trace windows_cloned)"
    by (simp add: eval_defs)
  have c: "clone_cmd linux_fresh \<in> set (calls linux_fresh) \<and>
           clone_cmd windows_cloned \<notin> set (calls windows_cloned)"
    by (simp add: eval_defs)
  have d: "bootstrap_script linux_fresh = ''/home/dev/sqlitemap/tools/vcpkg/bootstrap-vcpkg.sh'' \<and>
           bootstrap_script windows_cloned = ''/home/dev/sqlitemap/tools/vcpkg/bootstrap-vcpkg.bat''"
    by (simp add: eval_defs)
  show ?thesis
    using a b c d bootstrap_has_one_fixed_argument [OF a] bootstrap_has_one_fixed_argument [OF b]
    by simp
qed

section \<open>End to end\<close>

text \<open>
  C7, as the code has it. With nothing at the target directory, platform \<^verbatim>\<open>Linux\<close>, a
  clone that exits with 0 and neither \<^verbatim>\<open>print\<close> raising, the subprocesses of the run are the
  clone, from the fixed URL to the script directory joined with \<^verbatim>\<open>vcpkg\<close>, and then
  \<^verbatim>\<open>bootstrap-vcpkg.sh\<close> of that directory with \<^verbatim>\<open>-disableMetrics\<close>. With the target
  directory present, platform \<^verbatim>\<open>Windows\<close> and the \<^verbatim>\<open>print\<close> before the bootstrap not raising,
  the only subprocess of the run is \<^verbatim>\<open>bootstrap-vcpkg.bat\<close> of that directory with
  \<^verbatim>\<open>-disableMetrics\<close>.
\<close>

theorem end_to_end_scenarios:
  "(platform_system h = ''Linux'' \<and> filesystem h (vcpkg_dir h) = None \<and>
    \<not> print_raises h ''Cloning vcpkg from GitHub...'' \<and>
    child h (clone_cmd h) = Exited 0 \<and>
    \<not> print_raises h ''Installing vcpkg...'' \<longrightarrow>
      calls h =
        [[''git'', ''clone'', ''https://github.com/Microsoft/vcpkg.git'',
          os_path_join h (tools_dir h) ''vcpkg''],
         [os_path_join h (os_path_join h (tools_dir h) ''vcpkg'') ''bootstrap-vcpkg.sh'',
          ''-disableMetrics'']]) \<and>
   (platform_system h = ''Windows'' \<and> os_path_isdir h (vcpkg_dir h) \<and>
    \<not> print_raises h ''Installing vcpkg...'' \<longrightarrow>
      calls h =
        [[os_path_join h (os_path_join h (tools_dir h) ''vcpkg'') ''bootstrap-vcpkg.bat'',
          ''-disableMetrics'']])"
proof -
  have "\<not> os_path_isdir h (vcpkg_dir h)" if "filesystem h (vcpkg_dir h) = None"
    using that by (simp add: os_path_isdir_def)
  then show ?thesis
    by (auto simp add: calls_def trace_def run_present run_cloned)
      (simp_all add: clone_cmd_def bootstrap_cmd_def bootstrap_script_def vcpkg_dir_def)
qed

text \<open>
  The two scenarios on hosts with POSIX paths, where joining puts a slash between the
  parts.
\<close>

theorem end_to_end_scenarios_witness:
  "platform_system linux_fresh = ''Linux'' \<and>
   filesystem linux_fresh (vcpkg_dir linux_fresh) = None \<and>
   \<not> print_raises linux_fresh ''Cloning vcpkg from GitHub...'' \<and>
   child linux_fresh (clone_cmd linux_fresh) = Exited 0 \<and>
   \<not> print_raises linux_fresh ''Installing vcpkg...'' \<and>
   tools_dir linux_fresh = ''/home/dev/sqlitemap/tools'' \<and>
   calls linux_fresh =
     [[''git'', ''clone'', ''https://github.com/Microsoft/vcpkg.git'',
       ''/home/dev/sqlitemap/tools/vcpkg''],
      [''/home/dev/sqlitemap/tools/vcpkg/bootstrap-vcpkg.sh'', ''-disableMetrics'']] \<and>
   platform_system windows_cloned = ''Windows'' \<and>
   os_path_isdir windows_cloned (vcpkg_dir windows_cloned) \<and>
   \<not> print_raises windows_cloned ''Installing vcpkg...'' \<and>
   tools_dir windows_cloned = ''/home/dev/sqlitemap/tools'' \<and>
   calls windows_cloned =
     [[''/home/dev/sqlitemap/tools/vcpkg/bootstrap-vcpkg.bat'', ''-disableMetrics'']]"
proof -
  have a: "platform_system linux_fresh = ''Linux'' \<and>
           filesystem linux_fresh (vcpkg_dir linux_fresh) = None \<and>
           \<not> print_raises linux_fresh ''Cloning vcpkg from GitHub...'' \<and>
           child linux_fresh (clone_cmd linux_fresh) = Exited 0 \<and>
           \<not> print_raises linux_fresh ''Installing vcpkg...''"
    by (simp add: eval_defs)
  have b: "platform_system windows_cloned = ''Windows'' \<and>
           os_path_isdir windows_cloned (vcpkg_dir windows_cloned) \<and>
           \<not> print_raises windows_cloned ''Installing vcpkg...''"
    by (simp add: eval_defs)
  have c: "tools_dir linux_fresh = ''/home/dev/sqlitemap/tools'' \<and>
           tools_dir windows_cloned = ''/home/dev/sqlitemap/tools''"
    by (simp add: host_defs path_defs posix_defs)
  have d: "os_path_join linux_fresh = posix_join \<and> os_path_join windows_cloned = posix_join"
    by (rule conjI; rule ext; rule ext) (simp_all add: host_defs os_path_join_def posixpath_def)
  show ?thesis
    using a b c d end_to_end_scenarios [of linux_fresh] end_to_end_scenarios [of windows_cloned]
    by (simp add: posix_join_def)
qed

text \<open>
  C7 as the spec states it fails in both scenarios. With nothing at the target directory
  and platform \<^verbatim>\<open>Linux\<close>, a clone that exits with 128 is the only subprocess of the run, and
  the bootstrap script is not started; and with a standard output that refuses the line,
  not even the clone is started. With the target directory present and platform
  \<^verbatim>\<open>Windows\<close>, a standard output that refuses the line leaves the bootstrap script
  unstarted.
\<close>

theorem failed_clone_skips_bootstrap:
  "platform_system linux_clone_fails = ''Linux'' \<and>
   filesystem linux_clone_fails (vcpkg_dir linux_clone_fails) = None \<and>
   tools_dir linux_clone_fails = ''/home/dev/sqlitemap/tools'' \<and>
   calls linux_clone_fails =
     [[''git'', ''clone'', ''https://github.com/Microsoft/vcpkg.git'',
       ''/home/dev/sqlitemap/tools/vcpkg'']] \<and>
   [''/home/dev/sqlitemap/tools/vcpkg/bootstrap-vcpkg.sh'', ''-disableMetrics'']
     \<notin> set (calls linux_clone_fails) \<and>
   platform_system linux_stdout_refused = ''Linux'' \<and>
   filesystem linux_stdout_refused (vcpkg_dir linux_stdout_refused) = None \<and>
   calls linux_stdout_refused = [] \<and>
   platform_system windows_stdout_refused = ''Windows'' \<and>
   os_path_isdir windows_stdout_refused (vcpkg_dir windows_stdout_refused) \<and>
   calls windows_stdout_refused = []"
  by (simp add: eval_defs)

section \<open>Letter case of the platform identifier\<close>

text \<open>
  C10. The platform test is an exact comparison of strings: for every platform identifier
  that differs from \<^verbatim>\<open>Windows\<close> only by letter case, \<^verbatim>\<open>bootstrap-vcpkg.sh\<close> is selected, and
  with POSIX paths that is a different path from the one of \<^verbatim>\<open>bootstrap-vcpkg.bat\<close>.
\<close>

theorem case_variant_selects_shell_script:
  assumes "differs_only_by_case (platform_system h) ''Windows''"
  shows "bootstrap_script h = os_path_join h (vcpkg_dir h) ''bootstrap-vcpkg.sh'' \<and>
         bootstrap_cmd h = [os_path_join h (vcpkg_dir h) ''bootstrap-vcpkg.sh'', ''-disableMetrics''] \<and>
         (os_path h = posixpath \<longrightarrow>
            bootstrap_script h \<noteq> os_path_join h (vcpkg_dir h) ''bootstrap-vcpkg.bat'')"
proof -
  from assms have "platform_system h \<noteq> ''Windows''"
    by (simp add: differs_only_by_case_def)
  then have s: "bootstrap_script h = os_path_join h (vcpkg_dir h) ''bootstrap-vcpkg.sh''"
    by (simp add: bootstrap_script_def)
  have "posix_join a ''bootstrap-vcpkg.sh'' \<noteq> posix_join a ''bootstrap-vcpkg.bat''" for a
    by (simp add: posix_join_def)
  with s show ?thesis
    by (simp add: bootstrap_cmd_def os_path_join_def posixpath_def)
qed

text \<open>The theorem for the identifiers \<^verbatim>\<open>windows\<close> and \<^verbatim>\<open>WINDOWS\<close>.\<close>

theorem case_variant_selects_shell_script_witness:
  "differs_only_by_case (platform_system lowercase_windows) ''Windows'' \<and>
   platform_system lowercase_windows = ''windows'' \<and>
   bootstrap_script lowercase_windows = ''/home/dev/sqlitemap/tools/vcpkg/bootstrap-vcpkg.sh'' \<and>
   differs_only_by_case (platform_system uppercase_windows) ''Windows'' \<and>
   platform_system uppercase_windows = ''WINDOWS'' \<and>
   bootstrap_script uppercase_windows = ''/home/dev/sqlitemap/tools/vcpkg/bootstrap-vcpkg.sh''"
proof -
  have a: "differs_only_by_case (platform_system lowercase_windows) ''Windows''"
    by (simp add: host_defs differs_only_by_case_def ascii_lower_def)
  have b: "differs_only_by_case (platform_system uppercase_windows) ''Windows''"
    by (simp add: host_defs differs_only_by_case_def ascii_lower_def)
  have c: "platform_system lowercase_windows = ''windows'' \<and>
           platform_system uppercase_windows = ''WINDOWS''"
    by (simp add: host_defs)
  have d: "os_path_join lowercase_windows (vcpkg_dir lowercase_windows) ''bootstrap-vcpkg.sh'' =
             ''/home/dev/sqlitemap/tools/vcpkg/bootstrap-vcpkg.sh'' \<and>
           os_path_join uppercase_windows (vcpkg_dir uppercase_windows) ''bootstrap-vcpkg.sh'' =
             ''/home/dev/sqlitemap/tools/vcpkg/bootstrap-vcpkg.sh''"
    by (simp add: host_defs path_defs posix_defs)
  show ?thesis
    using a b c d case_variant_selects_shell_script [OF a] case_variant_selects_shell_script [OF b]
    by simp
qed

section \<open>The script directory with POSIX paths\<close>

text \<open>
  With the POSIX path module, the absolute path of an absolute \<^verbatim>\<open>__file__\<close> is its
  normal form and the working directory is not read; a relative \<^verbatim>\<open>__file__\<close> is joined to
  the working directory, so the script directory follows it.
\<close>

lemma posix_abspath_absolute:
  "posix_isabs p \<Longrightarrow> posix_abspath c p = posix_normpath p"
  by (simp add: posix_abspath_def)

lemma posix_tools_dir_absolute_script_file:
  assumes "os_path h = posixpath" and "posix_isabs (script_file h)"
  shows "tools_dir (h\<lparr>os_getcwd := c\<rparr>) = tools_dir h"
  using assms
  by (simp add: tools_dir_def os_path_dirname_def os_path_abspath_def posixpath_def
      posix_abspath_absolute)

lemma relative_script_file_follows_cwd:
  "tools_dir (linux_fresh\<lparr>os_getcwd := ''/tmp''\<rparr>) = ''/tmp/tools'' \<and>
   tools_dir linux_fresh = ''/home/dev/sqlitemap/tools''"
  by (simp add: host_defs path_defs posix_defs)

end
